theory Spec2Isabelle
  imports Complex_Main
begin

section \<open>Cross-entropy-method agent of Chapter 1 (06\_neural\_evolutionary\_agent)\<close>

text \<open>
  The notebook trains a policy with the cross-entropy method: it rolls an agent out in a
  Gym environment, keeps the trajectories whose episode reward reaches a percentile of
  the batch, and fits the network to the actions of those trajectories.

  Rewards are Python floats in the notebook. They are modelled as exact real numbers, so
  every statement below is about the arithmetic the code asks for, without the rounding
  of IEEE doubles.
\<close>

subsection \<open>Errors\<close>

text \<open>The Python exceptions the modelled code can raise.\<close>

datatype error = ValueError | IndexError

subsection \<open>Trajectories\<close>

text \<open>\<^verbatim>\<open>Trajectory = namedtuple("Trajectory", ["obs", "actions", "reward"])\<close>\<close>

record ('o, 'a) Trajectory =
  obs :: "'o list"
  actions :: "'a list"
  reward :: real

subsection \<open>The label encoder\<close>

text \<open>
  \<^verbatim>\<open>
  def gen_action_distribution(action_index, action_dim=5):
      action_distribution = np.zeros(action_dim).astype(type(action_index))
      action_distribution[action_index] = 1
      return action_distribution
  \<close>
  \<open>np.zeros\<close> refuses a negative length with a ValueError. The store
  \<open>action_distribution[action_index] = 1\<close> is a numpy index assignment: an index
  \<open>i\<close> with \<open>-n \<le> i < 0\<close> addresses position \<open>n + i\<close>, and an index outside
  \<open>[-n, n)\<close> raises IndexError. The caller passes a Python int (\<open>a.item()\<close>), so the
  entries are integers.
\<close>

definition np_zeros :: "int \<Rightarrow> error + int list" where
  "np_zeros n = (if n < 0 then Inl ValueError else Inr (replicate (nat n) 0))"

definition np_setitem :: "int list \<Rightarrow> int \<Rightarrow> int \<Rightarrow> error + int list" where
  "np_setitem arr i v =
     (if 0 \<le> i \<and> i < int (length arr) then Inr (arr[nat i := v])
      else if i < 0 \<and> - int (length arr) \<le> i then Inr (arr[nat (int (length arr) + i) := v])
      else Inl IndexError)"

definition gen_action_distribution :: "int \<Rightarrow> int \<Rightarrow> error + int list" where
  "gen_action_distribution action_index action_dim =
     (case np_zeros action_dim of
        Inl e \<Rightarrow> Inl e
      | Inr action_distribution \<Rightarrow> np_setitem action_distribution action_index 1)"

subsection \<open>The percentile of numpy\<close>

text \<open>
  \<open>np.percentile(a, q)\<close> with numpy's default (linear) method: \<open>q\<close> outside
  \<open>[0, 100]\<close> is a ValueError; otherwise the data are sorted, the virtual index is
  \<open>q / 100 * (n - 1)\<close>, the index below is its floor, the index above is one more,
  clipped to \<open>n - 1\<close>, and the result is the mean of the two order statistics weighted
  by the fractional part. The empty array is never passed by \<open>gather_elite_xp\<close>
  (unpacking the empty \<open>zip\<close> fails first); it is an error here.
\<close>

definition np_percentile :: "real list \<Rightarrow> real \<Rightarrow> error + real" where
  "np_percentile a q =
     (if q < 0 \<or> 100 < q then Inl ValueError
      else if a = [] then Inl IndexError
      else
        let ap = sort a;
            Nx = int (length ap);
            indices = q / 100 * of_int (Nx - 1);
            indices_below = \<lfloor>indices\<rfloor>;
            indices_above = (if indices_below + 1 > Nx - 1 then Nx - 1 else indices_below + 1);
            weights_above = indices - of_int indices_below;
            x1 = ap ! nat indices_below * (1 - weights_above);
            x2 = ap ! nat indices_above * weights_above
        in Inr (x1 + x2))"


subsection \<open>The elite selector\<close>

text \<open>
  \<^verbatim>\<open>
  def gather_elite_xp(trajectories, elitism_criterion):
      trajectory_obs, trajectory_actions, trajectory_rewards = zip(*trajectories)
      reward_threshold = np.percentile(trajectory_rewards, elitism_criterion)
      indices = [index for index, value in enumerate(trajectory_rewards)
                 if value >= reward_threshold]
      elite_trajectory_obs = [trajectory_obs[i] for i in indices]
      elite_trajectory_actions = [trajectory_actions[i] for i in indices]
      unpacked_elite_batch_obs = [item for items in elite_trajectory_obs for item in items]
      unpacked_elite_batch_actions = [item for items in elite_trajectory_actions for item in items]
      return (np.array(unpacked_elite_batch_obs), np.array(unpacked_elite_batch_actions),
              reward_threshold)
  \<close>
  With no trajectory, \<open>zip(*trajectories)\<close> yields nothing and the unpacking into three
  names raises ValueError.
\<close>

definition elite_indices :: "real list \<Rightarrow> real \<Rightarrow> nat list" where
  "elite_indices trajectory_rewards reward_threshold =
     map fst (filter (\<lambda>(index, v). v \<ge> reward_threshold)
                (enumerate 0 trajectory_rewards))"

definition gather_elite_xp ::
  "('o, 'a) Trajectory list \<Rightarrow> real \<Rightarrow> error + ('o list \<times> 'a list \<times> real)" where
  "gather_elite_xp trajectories elitism_criterion =
     (if trajectories = [] then Inl ValueError
      else
        let trajectory_obs = map obs trajectories;
            trajectory_actions = map actions trajectories;
            trajectory_rewards = map reward trajectories
        in case np_percentile trajectory_rewards elitism_criterion of
             Inl e \<Rightarrow> Inl e
           | Inr reward_threshold \<Rightarrow>
               let indices = elite_indices trajectory_rewards reward_threshold;
                   elite_trajectory_obs = map (\<lambda>i. trajectory_obs ! i) indices;
                   elite_trajectory_actions = map (\<lambda>i. trajectory_actions ! i) indices;
                   unpacked_elite_batch_obs = concat elite_trajectory_obs;
                   unpacked_elite_batch_actions = concat elite_trajectory_actions
               in Inr (unpacked_elite_batch_obs, unpacked_elite_batch_actions,
                       reward_threshold))"

subsection \<open>Environment, network and random source\<close>

text \<open>
  Gym, Keras and TensorFlow are outside the notebook. What the notebook asks of them is
  collected in one record of operations over an environment state \<open>'s\<close>, network
  weights \<open>'w\<close>, the state \<open>'g\<close> of TensorFlow's global random generator and grid cells
  \<open>'c\<close>:
  \<^item> \<open>gym_make\<close>, \<open>action_space_n\<close>, \<open>observation_shape\<close>, \<open>env_reset\<close>,
    \<open>env_step\<close> (the \<open>info\<close> component is never read and is left out),
    \<open>env_render\<close>, \<open>env_close\<close>: the environment;
  \<^item> \<open>initial_weights\<close>, \<open>predict_on_batch\<close>, \<open>keras_fit\<close>: the Keras model;
  \<^item> \<open>log_categorical\<close>: one draw of
    \<open>tf.random.categorical(tf.math.log(row), num_samples=1)\<close> for one row of scores;
  \<^item> \<open>float16\<close>: the rounding of \<open>astype("float16")\<close> on one cell.
\<close>

record ('s, 'w, 'g, 'c) system =
  gym_make :: "string \<Rightarrow> 's"
  action_space_n :: "'s \<Rightarrow> int"
  observation_shape :: "'s \<Rightarrow> nat list"
  env_reset :: "'s \<Rightarrow> 's \<times> 'c list list"
  env_step :: "'s \<Rightarrow> int list list \<Rightarrow> 's \<times> 'c list list \<times> real \<times> bool"
  env_render :: "'s \<Rightarrow> 's"
  env_close :: "'s \<Rightarrow> 's"
  initial_weights :: "int \<Rightarrow> nat list \<Rightarrow> 'w"
  predict_on_batch :: "'w \<Rightarrow> 'c list list \<Rightarrow> real list list"
  log_categorical :: "real list \<Rightarrow> 'g \<Rightarrow> int \<times> 'g"
  keras_fit :: "'w \<Rightarrow> 'c list list \<Rightarrow> int list list \<Rightarrow> error + 'w"
  float16 :: "'c \<Rightarrow> 'c"

subsection \<open>Brain and Agent\<close>

text \<open>
  \<^verbatim>\<open>
  class Brain(keras.Model):
      def __init__(self, action_dim=5, input_shape=(1, 8 * 8)):
          self.dense1 = layers.Dense(32, input_shape=input_shape, activation="relu")
          self.logits = layers.Dense(action_dim)
      def process(self, observations):
          action_logits = self.predict_on_batch(observations)
          return action_logits
  \<close>
  The width of the last layer is kept as a field: it is the output dimension of the
  approximator.
\<close>

record 'w Brain =
  dense1_input_shape :: "nat list"
  logits_units :: int
  weights :: 'w

definition Brain_init :: "('s, 'w, 'g, 'c) system \<Rightarrow> int \<Rightarrow> nat list \<Rightarrow> 'w Brain" where
  "Brain_init sys action_dim input_shape =
     \<lparr>dense1_input_shape = input_shape, logits_units = action_dim,
      weights = initial_weights sys action_dim input_shape\<rparr>"

definition process :: "('s, 'w, 'g, 'c) system \<Rightarrow> 'w Brain \<Rightarrow> 'c list list \<Rightarrow> real list list" where
  "process sys b observations = predict_on_batch sys (weights b) observations"

text \<open>
  \<^verbatim>\<open>
  class Agent(object):
      def __init__(self, action_dim=5, input_shape=(1, 8 * 8)):
          self.brain = Brain(action_dim, input_shape)
          self.brain.compile(...)
          self.policy = self.policy_mlp
      def policy_mlp(self, observations):
          observations = observations.reshape(1, -1)
          action_logits = self.brain.process(observations)
          action = tf.random.categorical(tf.math.log(action_logits), num_samples=1)
          return action
      def get_action(self, observations):
          return self.policy(observations)
      def learn(self, obs, actions, **kwargs):
          self.brain.fit(obs, actions, **kwargs)
  \<close>
  \<open>tf.random.categorical\<close> with \<open>num_samples=1\<close> returns one row \<open>[a]\<close> per row of
  its argument.
\<close>

record 'w Agent =
  brain :: "'w Brain"

definition Agent_init :: "('s, 'w, 'g, 'c) system \<Rightarrow> int \<Rightarrow> nat list \<Rightarrow> 'w Agent" where
  "Agent_init sys action_dim input_shape = \<lparr>brain = Brain_init sys action_dim input_shape\<rparr>"

fun tf_random_categorical_log ::
  "('s, 'w, 'g, 'c) system \<Rightarrow> real list list \<Rightarrow> 'g \<Rightarrow> int list list \<times> 'g" where
  "tf_random_categorical_log sys [] g = ([], g)"
| "tf_random_categorical_log sys (row # rows) g =
     (case log_categorical sys row g of
        (a, g1) \<Rightarrow> (case tf_random_categorical_log sys rows g1 of
                      (rest, g2) \<Rightarrow> ([a] # rest, g2)))"

definition policy_mlp ::
  "('s, 'w, 'g, 'c) system \<Rightarrow> 'w Agent \<Rightarrow> 'g \<Rightarrow> 'c list list \<Rightarrow> int list list \<times> 'g" where
  "policy_mlp sys self g observations =
     (let observations = [concat observations];
          action_logits = process sys (brain self) observations
      in tf_random_categorical_log sys action_logits g)"

definition get_action ::
  "('s, 'w, 'g, 'c) system \<Rightarrow> 'w Agent \<Rightarrow> 'g \<Rightarrow> 'c list list \<Rightarrow> int list list \<times> 'g" where
  "get_action sys self g observations = policy_mlp sys self g observations"

definition learn ::
  "('s, 'w, 'g, 'c) system \<Rightarrow> 'w Agent \<Rightarrow> 'c list list \<Rightarrow> int list list \<Rightarrow> error + 'w Agent" where
  "learn sys self obs_batch action_batch =
     (case keras_fit sys (weights (brain self)) obs_batch action_batch of
        Inl e \<Rightarrow> Inl e
      | Inr w' \<Rightarrow> Inr (self\<lparr>brain := (brain self)\<lparr>weights := w'\<rparr>\<rparr>))"

subsection \<open>The episode roller\<close>

text \<open>
  \<open>np.squeeze(action, 0)\<close> removes the leading axis when its size is one and raises
  ValueError otherwise.
\<close>

definition np_squeeze0 :: "'x list \<Rightarrow> error + 'x" where
  "np_squeeze0 xs = (case xs of [x] \<Rightarrow> Inr x | _ \<Rightarrow> Inl ValueError)"

text \<open>
  \<^verbatim>\<open>
  def rollout(agent, env, render=False):
      obs, episode_reward, done, step_num = env.reset(), 0.0, False, 0
      observations, actions = [], []
      episode_reward = 0.0
      while not done:
          action = agent.get_action(obs)
          next_obs, reward, done, info = env.step(action)
          observations.append(np.array(obs).reshape(-1))
          actions.append(np.squeeze(action, 0))
          episode_reward += reward
          obs = next_obs
          step_num += 1
          if render:
              env.render()
      env.close()
      return observations, actions, episode_reward
  \<close>
  The loop may run forever: \<open>None\<close> is the run that never returns. An exception leaves
  the loop with the environment and generator as they are at that moment. The names
  \<open>obs\<close>, \<open>actions\<close> and \<open>reward\<close> are fields of \<open>Trajectory\<close>; the loop variables of
  the same names are \<open>obs0\<close>, \<open>acts\<close> and \<open>reward'\<close> here.
\<close>

type_synonym 'c episode_result = "'c list list \<times> int list list \<times> real"

partial_function (option) rollout_loop ::
  "('s, 'w, 'g, 'c) system \<Rightarrow> 'w Agent \<Rightarrow> bool \<Rightarrow> 's \<Rightarrow> 'g \<Rightarrow> 'c list list \<Rightarrow> real \<Rightarrow> bool
   \<Rightarrow> nat \<Rightarrow> 'c list list \<Rightarrow> int list list
   \<Rightarrow> ((error + 'c episode_result) \<times> 's \<times> 'g) option" where
  "rollout_loop sys agent render env g obs0 episode_reward done step_num observations acts =
     (if \<not> done then
        (case get_action sys agent g obs0 of
           (action, g') \<Rightarrow>
             (case env_step sys env action of
                (env', next_obs, reward', done') \<Rightarrow>
                  (case np_squeeze0 action of
                     Inl e \<Rightarrow> Some (Inl e, env', g')
                   | Inr a \<Rightarrow>
                       rollout_loop sys agent render
                         (if render then env_render sys env' else env') g' next_obs
                         (episode_reward + reward') done' (step_num + 1)
                         (observations @ [concat obs0]) (acts @ [a]))))
      else Some (Inr (observations, acts, episode_reward), env, g))"

declare rollout_loop.simps [code]

definition rollout ::
  "('s, 'w, 'g, 'c) system \<Rightarrow> 'w Agent \<Rightarrow> 's \<Rightarrow> 'g \<Rightarrow> bool
   \<Rightarrow> ((error + 'c episode_result) \<times> 's \<times> 'g) option" where
  "rollout sys agent env g render =
     (case env_reset sys env of
        (env1, obs0) \<Rightarrow>
          (case rollout_loop sys agent render env1 g obs0 0 False 0 [] [] of
             None \<Rightarrow> None
           | Some (Inl e, env2, g2) \<Rightarrow> Some (Inl e, env2, g2)
           | Some (Inr t, env2, g2) \<Rightarrow> Some (Inr t, env_close sys env2, g2)))"

text \<open>
  One episode as a relation, without accumulators: the list holds, for each step, the
  observation the action was drawn from, the action, the reward and the observation
  the environment answered with. The last step, and only the last, reports done. The
  relation has an executable mode that enumerates the episode from a start state.
\<close>

datatype 'c transition =
  Transition (pre_obs: "'c list list") (taken: int) (step_reward: real)
    (post_obs: "'c list list")

inductive episode ::
  "('s, 'w, 'g, 'c) system \<Rightarrow> 'w Agent \<Rightarrow> bool \<Rightarrow> 's \<Rightarrow> 'g \<Rightarrow> 'c list list
   \<Rightarrow> 'c transition list \<Rightarrow> 's \<Rightarrow> 'g \<Rightarrow> bool"
  for sys agent render where
  last_step:
    "get_action sys agent g ob = ([[a]], g') \<Longrightarrow>
     env_step sys env [[a]] = (env', ob', r, True) \<Longrightarrow>
     episode sys agent render env g ob
       [Transition ob a r ob']
       (if render then env_render sys env' else env') g'"
| more_steps:
    "get_action sys agent g ob = ([[a]], g') \<Longrightarrow>
     env_step sys env [[a]] = (env', ob', r, False) \<Longrightarrow>
     episode sys agent render (if render then env_render sys env' else env') g' ob' tr env'' g'' \<Longrightarrow>
     episode sys agent render env g ob
       (Transition ob a r ob' # tr) env'' g''"

code_pred episode .

subsection \<open>The training loop\<close>

text \<open>
  The state a run of \<open>train\<close> threads through its calls: the environment, the agent
  and the random generator, and three observers that the code does not have but its
  effects define: the number of calls of \<open>rollout\<close>, the arguments of every call of
  the network's \<open>fit\<close>, and the series handed to \<open>plt.plot\<close>.
\<close>

record ('s, 'w, 'g, 'c) world =
  world_env :: 's
  world_agent :: "'w Agent"
  world_rng :: 'g
  rollouts_started :: nat
  fit_calls :: "('c list list \<times> int list list) list"
  plotted :: "real list list"

text \<open>
  \<open>[Trajectory(*rollout(agent, env)) for _ in range(num_trajectory_rollouts)]\<close>:
  the rollouts run one after the other on the same environment and generator.
\<close>

fun run_rollouts ::
  "('s, 'w, 'g, 'c) system \<Rightarrow> nat \<Rightarrow> ('s, 'w, 'g, 'c) world
   \<Rightarrow> (('s, 'w, 'g, 'c) world \<times> (error + ('c list, int list) Trajectory list)) option" where
  "run_rollouts sys 0 w = Some (w, Inr [])"
| "run_rollouts sys (Suc k) w =
     (case rollout sys (world_agent w) (world_env w) (world_rng w) False of
        None \<Rightarrow> None
      | Some (res, env', g') \<Rightarrow>
          (let w' = w\<lparr>world_env := env', world_rng := g', rollouts_started := rollouts_started w + 1\<rparr>
           in case res of
                Inl e \<Rightarrow> Some (w', Inl e)
              | Inr (observations, acts, episode_reward) \<Rightarrow>
                  (case run_rollouts sys k w' of
                     None \<Rightarrow> None
                   | Some (w'', Inl e) \<Rightarrow> Some (w'', Inl e)
                   | Some (w'', Inr ts) \<Rightarrow>
                       Some (w'', Inr (\<lparr>obs = observations, actions = acts,
                                        reward = episode_reward\<rparr> # ts)))))"

text \<open>
  \<open>a.item()\<close> reads the only element of an array and raises ValueError when the array
  has another size.
\<close>

definition np_item :: "int list \<Rightarrow> error + int" where
  "np_item a = (case a of [x] \<Rightarrow> Inr x | _ \<Rightarrow> Inl ValueError)"

text \<open>
  \<open>[gen_action_distribution(a.item()) for a in elite_actions]\<close>: the second argument
  is not given, so \<open>action_dim\<close> has its default, 5. The first exception ends the
  comprehension.
\<close>

fun elite_action_distributions_of :: "int list list \<Rightarrow> error + int list list" where
  "elite_action_distributions_of [] = Inr []"
| "elite_action_distributions_of (a # as) =
     (case np_item a of
        Inl e \<Rightarrow> Inl e
      | Inr i \<Rightarrow>
          (case gen_action_distribution i 5 of
             Inl e \<Rightarrow> Inl e
           | Inr d \<Rightarrow>
               (case elite_action_distributions_of as of
                  Inl e \<Rightarrow> Inl e
                | Inr ds \<Rightarrow> Inr (d # ds))))"

definition np_mean :: "real list \<Rightarrow> real" where
  "np_mean xs = sum_list xs / real (length xs)"

text \<open>
  The body of the epoch loop after the rollouts:
  \<^verbatim>\<open>
      _, _, batch_rewards = zip(*trajectories)
      elite_obs, elite_actions, elite_threshold = gather_elite_xp(
          trajectories, elitism_criterion=elitism_criterion)
      elite_action_distributions = np.array(
          [gen_action_distribution(a.item()) for a in elite_actions])
      elite_obs, elite_action_distributions = (
          elite_obs.astype("float16"), elite_action_distributions.astype("float16"))
      agent.learn(elite_obs, elite_action_distributions, batch_size=128, epochs=3, verbose=0)
      mean_rewards.append(np.mean(batch_rewards))
      elite_reward_thresholds.append(elite_threshold)
  \<close>
  The labels are 0 and 1, which float16 holds exactly; they stay integers. The keyword
  arguments of \<open>fit\<close> are constants and are not modelled. The result is the pair that
  the two appends add to the histories.
\<close>

definition fit_on_elites ::
  "('s, 'w, 'g, 'c) system \<Rightarrow> real \<Rightarrow> ('c list, int list) Trajectory list
   \<Rightarrow> ('s, 'w, 'g, 'c) world \<Rightarrow> ('s, 'w, 'g, 'c) world \<times> (error + real \<times> real)" where
  "fit_on_elites sys elitism_criterion trajectories w =
     (if trajectories = [] then (w, Inl ValueError)
      else
        let batch_rewards = map reward trajectories
        in case gather_elite_xp trajectories elitism_criterion of
             Inl e \<Rightarrow> (w, Inl e)
           | Inr (elite_obs, elite_actions, elite_threshold) \<Rightarrow>
               (case elite_action_distributions_of elite_actions of
                  Inl e \<Rightarrow> (w, Inl e)
                | Inr elite_action_distributions \<Rightarrow>
                    (let elite_obs16 = map (map (float16 sys)) elite_obs;
                         w1 = w\<lparr>fit_calls :=
                                  fit_calls w @ [(elite_obs16, elite_action_distributions)]\<rparr>
                     in case learn sys (world_agent w) elite_obs16 elite_action_distributions of
                          Inl e \<Rightarrow> (w1, Inl e)
                        | Inr agent' \<Rightarrow>
                            (w1\<lparr>world_agent := agent'\<rparr>,
                             Inr (np_mean batch_rewards, elite_threshold)))))"

text \<open>
  \<open>for i in tqdm(range(num_epochs))\<close>, with the number of iterations still to run as
  the recursion argument and the two histories as accumulators.
\<close>

fun train_epochs ::
  "('s, 'w, 'g, 'c) system \<Rightarrow> int \<Rightarrow> real \<Rightarrow> nat \<Rightarrow> ('s, 'w, 'g, 'c) world
   \<Rightarrow> real list \<Rightarrow> real list
   \<Rightarrow> (('s, 'w, 'g, 'c) world \<times> (error + real list \<times> real list)) option" where
  "train_epochs sys num_trajectory_rollouts elitism_criterion 0 w
     mean_rewards elite_reward_thresholds =
     Some (w, Inr (mean_rewards, elite_reward_thresholds))"
| "train_epochs sys num_trajectory_rollouts elitism_criterion (Suc k) w
     mean_rewards elite_reward_thresholds =
     (case run_rollouts sys (nat num_trajectory_rollouts) w of
        None \<Rightarrow> None
      | Some (w1, Inl e) \<Rightarrow> Some (w1, Inl e)
      | Some (w1, Inr trajectories) \<Rightarrow>
          (case fit_on_elites sys elitism_criterion trajectories w1 of
             (w2, Inl e) \<Rightarrow> Some (w2, Inl e)
           | (w2, Inr (mean_reward, elite_threshold)) \<Rightarrow>
               train_epochs sys num_trajectory_rollouts elitism_criterion k w2
                 (mean_rewards @ [mean_reward])
                 (elite_reward_thresholds @ [elite_threshold])))"

text \<open>
  What a Python call evaluates to: \<open>train\<close> has no \<open>return\<close> statement, so its value
  is \<open>None\<close>; the other constructor is the history of epoch statistics, pairs of mean
  reward and elite threshold, that the specification names as the result.
\<close>

datatype py_value = PyNone | EpochHistory "(real \<times> real) list"

text \<open>
  \<^verbatim>\<open>
  def train(env_id="Gridworld-v0", num_trajectory_rollouts=70, elitism_criterion=70,
            num_epochs=10):
      env = gym.make(env_id)
      agent = Agent(env.action_space.n, env.observation_space.shape)
      mean_rewards = []
      elite_reward_thresholds = []
      for i in tqdm(range(num_epochs)):
          ...
      plt.plot(mean_rewards, "r-", label="mean_reward")
      plt.plot(elite_reward_thresholds, "g--", label="elites_reward_threshold")
      ...
  \<close>
  \<open>g0\<close> is the state of the random generator when \<open>train\<close> is called. The first two
  statements build the state the loop starts from.
\<close>

definition initial_world ::
  "('s, 'w, 'g, 'c) system \<Rightarrow> 'g \<Rightarrow> string \<Rightarrow> ('s, 'w, 'g, 'c) world" where
  "initial_world sys g0 env_id =
     (let env0 = gym_make sys env_id;
          agent0 = Agent_init sys (action_space_n sys env0) (observation_shape sys env0)
      in \<lparr>world_env = env0, world_agent = agent0, world_rng = g0, rollouts_started = 0,
          fit_calls = [], plotted = []\<rparr>)"

definition train ::
  "('s, 'w, 'g, 'c) system \<Rightarrow> 'g \<Rightarrow> string \<Rightarrow> int \<Rightarrow> real \<Rightarrow> int
   \<Rightarrow> (('s, 'w, 'g, 'c) world \<times> (error + py_value)) option" where
  "train sys g0 env_id num_trajectory_rollouts elitism_criterion num_epochs =
     (case train_epochs sys num_trajectory_rollouts elitism_criterion (nat num_epochs)
             (initial_world sys g0 env_id) [] [] of
        None \<Rightarrow> None
      | Some (w, Inl e) \<Rightarrow> Some (w, Inl e)
      | Some (w, Inr (mean_rewards, elite_reward_thresholds)) \<Rightarrow>
          Some (w\<lparr>plotted := [mean_rewards, elite_reward_thresholds]\<rparr>, Inr PyNone))"

subsection \<open>A small concrete system\<close>

text \<open>
  A system to run the definitions on: the environment counts its steps and is done
  after the second step of an episode, the reward of a step is the action taken, the
  observation is a 1 by 2 grid holding the step count, and the generator is a counter
  whose value modulo 3 is the action drawn. The action space has three actions.
\<close>

definition demo_system :: "(nat, nat, nat, int) system" where
  "demo_system =
     \<lparr>gym_make = (\<lambda>_. 0),
      action_space_n = (\<lambda>_. 3),
      observation_shape = (\<lambda>_. [1, 2]),
      env_reset = (\<lambda>_. (0, [[0, 0]])),
      env_step = (\<lambda>s action. (Suc s, [[int (Suc s), 0]], real_of_int (sum_list (concat action)),
                                Suc s \<ge> 2)),
      env_render = (\<lambda>s. s),
      env_close = (\<lambda>s. s),
      initial_weights = (\<lambda>_ _. 0),
      predict_on_batch = (\<lambda>w batch. map (\<lambda>_. [1, 1, 1]) batch),
      log_categorical = (\<lambda>row g. (int (g mod 3), Suc g)),
      keras_fit = (\<lambda>w _ _. Inr (Suc w)),
      float16 = (\<lambda>c. c)\<rparr>"

definition demo_agent :: "nat Agent" where
  "demo_agent = Agent_init demo_system 3 [1, 2]"

text \<open>The two steps of the first episode of that system, from the generator state 0.\<close>

definition demo_episode :: "int transition list" where
  "demo_episode =
     [Transition [[0, 0]] 0 0 [[1, 0]],
      Transition [[1, 0]] 1 1 [[2, 0]]]"

subsection \<open>Small concrete batches\<close>


definition demo_equal_trajectories :: "(int list, int list) Trajectory list" where
  "demo_equal_trajectories =
     [\<lparr>obs = [[0, 0], [1, 0]], actions = [[0], [1]], reward = 2\<rparr>,
      \<lparr>obs = [[0, 0], [2, 0]], actions = [[2], [0]], reward = 2\<rparr>]"

section \<open>Properties\<close>

subsection \<open>Elite selection\<close>

lemma elite_indices_filter:
  "elite_indices rs thr = filter (\<lambda>i. rs ! i \<ge> thr) [0..<length rs]"
proof (induction rs rule: rev_induct)
  case Nil
  then show ?case by (simp add: elite_indices_def)
next
  case (snoc x xs)
  have a: "filter (\<lambda>i. thr \<le> (xs @ [x]) ! i) [0..<length xs] = filter (\<lambda>i. thr \<le> xs ! i) [0..<length xs]"
    by (rule filter_cong) (auto simp: nth_append)
  from snoc show ?case
    by (simp add: elite_indices_def enumerate_append_eq a)
qed

lemma filter_via_indices:
  "map (\<lambda>i. xs ! i) (filter (\<lambda>i. P (xs ! i)) [0..<length xs]) = filter P xs"
proof -
  have "filter P xs = filter P (map (\<lambda>i. xs ! i) [0..<length xs])"
    by (simp add: map_nth)
  also have "\<dots> = map (\<lambda>i. xs ! i) (filter (\<lambda>i. P (xs ! i)) [0..<length xs])"
    by (simp add: filter_map comp_def)
  finally show ?thesis by simp
qed

lemma nth_elite_eq_filter:
  "map (\<lambda>i. map f ts ! i) (elite_indices (map reward ts) thr) =
   map f (filter (\<lambda>t. reward t \<ge> thr) ts)"
proof -
  have "map (\<lambda>i. map f ts ! i) (elite_indices (map reward ts) thr)
      = map (\<lambda>i. f (ts ! i)) (filter (\<lambda>i. reward (ts ! i) \<ge> thr) [0..<length ts])"
    unfolding elite_indices_filter
    by (rule map_cong) (auto intro: filter_cong)
  also have "\<dots> = map f (map (\<lambda>i. ts ! i) (filter (\<lambda>i. reward (ts ! i) \<ge> thr) [0..<length ts]))"
    by (simp add: comp_def)
  also have "\<dots> = map f (filter (\<lambda>t. reward t \<ge> thr) ts)"
    using filter_via_indices [of ts "\<lambda>t. reward t \<ge> thr"] by simp
  finally show ?thesis .
qed








lemma gather_elite_xp_result:
  assumes "trajectories \<noteq> []" "np_percentile (map reward trajectories) q = Inr thr"
  shows "gather_elite_xp trajectories q =
           Inr (concat (map obs (filter (\<lambda>t. reward t \<ge> thr) trajectories)),
                concat (map actions (filter (\<lambda>t. reward t \<ge> thr) trajectories)),
                thr)"
  using assms by (simp add: gather_elite_xp_def Let_def nth_elite_eq_filter)





text \<open>
  C5. With the rewards 1, 5 and 9 and the percentile 70 the threshold is 6.6 (33/5),
  and the batches are those of the third trajectory alone.
\<close>

theorem gather_elite_xp_example_70:
  "gather_elite_xp
     [\<lparr>obs = o1, actions = a1, reward = 1\<rparr>,
      \<lparr>obs = o2, actions = a2, reward = 5\<rparr>,
      \<lparr>obs = o3, actions = a3, reward = 9\<rparr>] 70 = Inr (o3, a3, 33 / 5)"
  by (simp add: gather_elite_xp_def np_percentile_def elite_indices_def Let_def)

text \<open>
  C6. The batches are the concatenation, in the order of the input, of the step
  sequences of the trajectories kept, each in its own order. For two trajectories that
  are both elite, the observations are those of the first followed by those of the
  second, and so are the actions.
\<close>

theorem gather_elite_xp_keeps_order:
  assumes "gather_elite_xp trajectories q = Inr (batch_obs, batch_actions, thr)"
  shows "batch_obs = concat (map obs (filter (\<lambda>t. reward t \<ge> thr) trajectories)) \<and>
         batch_actions = concat (map actions (filter (\<lambda>t. reward t \<ge> thr) trajectories)) \<and>
         (\<forall>T1 T2. trajectories = [T1, T2] \<and> reward T1 \<ge> thr \<and> reward T2 \<ge> thr \<longrightarrow>
            batch_obs = obs T1 @ obs T2 \<and> batch_actions = actions T1 @ actions T2)"
proof -
  from assms have ne: "trajectories \<noteq> []"
    by (auto simp: gather_elite_xp_def)
  from assms ne have p: "np_percentile (map reward trajectories) q = Inr thr"
    by (auto simp: gather_elite_xp_def Let_def split: sum.splits)
  show ?thesis
    using gather_elite_xp_result [OF ne p] assms by auto
qed

theorem gather_elite_xp_keeps_order_witness:
  "gather_elite_xp demo_equal_trajectories 30 =
     Inr ([[0, 0], [1, 0], [0, 0], [2, 0]], [[0], [1], [2], [0]], 2) \<and>
   [[0, 0], [1, 0], [0, 0], [2, 0]] =
     obs (demo_equal_trajectories ! 0) @ obs (demo_equal_trajectories ! 1) \<and>
   [[0], [1], [2], [0 :: int]] =
     actions (demo_equal_trajectories ! 0) @ actions (demo_equal_trajectories ! 1)"
proof -
  have g: "gather_elite_xp demo_equal_trajectories 30 =
     Inr ([[0, 0], [1, 0], [0, 0], [2, 0]], [[0], [1], [2], [0]], 2)"
    by (simp add: demo_equal_trajectories_def gather_elite_xp_def np_percentile_def
          elite_indices_def Let_def)
  have two: "demo_equal_trajectories =
               [demo_equal_trajectories ! 0, demo_equal_trajectories ! 1]"
    by (simp add: demo_equal_trajectories_def)
  have r: "reward (demo_equal_trajectories ! 0) \<ge> 2" "reward (demo_equal_trajectories ! 1) \<ge> 2"
    by (simp_all add: demo_equal_trajectories_def)
  from gather_elite_xp_keeps_order [OF g] two r g show ?thesis
    by blast
qed

subsection \<open>Label encoding\<close>




subsection \<open>Episode rollout\<close>

lemma np_squeeze0_single: "np_squeeze0 [x] = Inr x"
  by (simp add: np_squeeze0_def)

lemma rollout_loop_done:
  "rollout_loop sys agent render env g ob R True k os as = Some (Inr (os, as, R), env, g)"
  by (subst rollout_loop.simps) simp

lemma rollout_loop_step:
  assumes "get_action sys agent g ob = ([[a]], g')"
    and "env_step sys env [[a]] = (env', ob', r, d)"
  shows "rollout_loop sys agent render env g ob R False k os as =
         rollout_loop sys agent render (if render then env_render sys env' else env') g' ob'
           (R + r) d (k + 1) (os @ [concat ob]) (as @ [[a]])"
  by (subst rollout_loop.simps) (simp add: assms np_squeeze0_single)

lemma rollout_loop_episode:
  assumes "episode sys agent render env g ob tr env' g'"
  shows "rollout_loop sys agent render env g ob R False k os as =
           Some (Inr (os @ map (\<lambda>x. concat (pre_obs x)) tr,
                      as @ map (\<lambda>x. [taken x]) tr,
                      R + sum_list (map step_reward tr)), env', g')"
  using assms
proof (induction arbitrary: R k os as rule: episode.induct)
  case (last_step g ob a g' env env' ob' r)
  then show ?case
    by (simp add: rollout_loop_step rollout_loop_done)
next
  case (more_steps g ob a g' env env' ob' r tr env'' g'')
  have "rollout_loop sys agent render env g ob R False k os as =
        rollout_loop sys agent render (if render then env_render sys env' else env') g' ob'
           (R + r) False (k + 1) (os @ [concat ob]) (as @ [[a]])"
    using more_steps.hyps(1,2) by (rule rollout_loop_step)
  also have "\<dots> = Some (Inr ((os @ [concat ob]) @ map (\<lambda>x. concat (pre_obs x)) tr,
                      (as @ [[a]]) @ map (\<lambda>x. [taken x]) tr,
                      (R + r) + sum_list (map step_reward tr)), env'', g'')"
    by (rule more_steps.IH)
  finally show ?case by (simp add: add.assoc)
qed

lemma episode_starts: "episode sys agent render env g ob tr env' g' \<Longrightarrow> pre_obs (tr ! 0) = ob"
  by (induction rule: episode.induct) simp_all

lemma episode_chain:
  "episode sys agent render env g ob tr env' g' \<Longrightarrow> Suc i < length tr \<Longrightarrow>
   pre_obs (tr ! Suc i) = post_obs (tr ! i)"
proof (induction arbitrary: i rule: episode.induct)
  case (last_step g ob a g' env env' ob' r)
  then show ?case by simp
next
  case (more_steps g ob a g' env env' ob' r tr env'' g'')
  show ?case
  proof (cases i)
    case 0
    then show ?thesis using episode_starts [OF more_steps.hyps(3)] by simp
  next
    case (Suc j)
    then show ?thesis using more_steps.IH [of j] more_steps.prems by simp
  qed
qed

text \<open>
  C3. Whenever the interaction from the reset observation is an episode that ends,
  \<open>rollout\<close> returns, and in the trajectory it returns: the observation stored for a
  step is the flattened observation the action of that step was drawn from (the reset
  observation for the first step, the answer of the previous step afterwards; the
  answer of the last step is not stored), there are as many actions as observations,
  and the reward is the sum of the rewards of the steps.
\<close>

theorem rollout_stores_pre_step_observations:
  assumes "env_reset sys env0 = (env1, ob0)"
    and "episode sys agent render env1 g0 ob0 tr env2 g2"
  shows "\<exists>observations acts episode_reward.
           rollout sys agent env0 g0 render =
             Some (Inr (observations, acts, episode_reward), env_close sys env2, g2) \<and>
           length observations = length tr \<and>
           length acts = length observations \<and>
           (\<forall>i < length tr. observations ! i = concat (pre_obs (tr ! i)) \<and>
                             acts ! i = [taken (tr ! i)]) \<and>
           pre_obs (tr ! 0) = ob0 \<and>
           (\<forall>i. Suc i < length tr \<longrightarrow> pre_obs (tr ! Suc i) = post_obs (tr ! i)) \<and>
           episode_reward = sum_list (map step_reward tr)"
proof -
  have "rollout sys agent env0 g0 render =
          Some (Inr (map (\<lambda>x. concat (pre_obs x)) tr, map (\<lambda>x. [taken x]) tr,
                     sum_list (map step_reward tr)), env_close sys env2, g2)"
    using assms(1) rollout_loop_episode [OF assms(2), of 0 0 "[]" "[]"]
    by (simp add: rollout_def)
  moreover have "pre_obs (tr ! 0) = ob0" using assms(2) by (rule episode_starts)
  moreover have "\<forall>i. Suc i < length tr \<longrightarrow> pre_obs (tr ! Suc i) = post_obs (tr ! i)"
    using episode_chain [OF assms(2)] by blast
  ultimately show ?thesis by simp
qed

lemma demo_get_action: "get_action demo_system demo_agent g ob = ([[int (g mod 3)]], Suc g)"
  by (simp add: get_action_def policy_mlp_def process_def demo_system_def)

lemma demo_env_step:
  "env_step demo_system s action =
     (Suc s, [[int (Suc s), 0]], real_of_int (sum_list (concat action)), Suc s \<ge> 2)"
  by (simp add: demo_system_def)

lemma demo_episode_run: "episode demo_system demo_agent False 0 0 [[0, 0]] demo_episode 2 2"
proof -
  have s2: "episode demo_system demo_agent False (Suc 0) (Suc 0) [[1, 0]]
              [Transition [[1, 0]] 1 1 [[2, 0]]]
              (if False then env_render demo_system 2 else 2) 2"
    by (rule episode.last_step [where g' = 2]) (simp_all add: demo_get_action demo_env_step)
  have "episode demo_system demo_agent False 0 0 [[0, 0]]
              (Transition [[0, 0]] 0 0 [[1, 0]] #
               [Transition [[1, 0]] 1 1 [[2, 0]]]) 2 2"
    by (rule episode.more_steps [where g' = "Suc 0" and env' = "Suc 0"])
       (use s2 in \<open>simp_all add: demo_get_action demo_env_step\<close>)
  then show ?thesis by (simp add: demo_episode_def)
qed

theorem rollout_stores_pre_step_observations_witness:
  "rollout demo_system demo_agent 0 0 False =
     Some (Inr ([[0, 0], [1, 0]], [[0], [1]], 1), 2, 2)"
proof -
  have r: "env_reset demo_system 0 = (0, [[0, 0]])" by (simp add: demo_system_def)
  have c: "env_close demo_system 2 = 2" by (simp add: demo_system_def)
  from rollout_stores_pre_step_observations [OF r demo_episode_run]
  obtain observations acts episode_reward where
    run: "rollout demo_system demo_agent 0 0 False =
            Some (Inr (observations, acts, episode_reward), env_close demo_system 2, 2)"
    and len: "length observations = length demo_episode" "length acts = length observations"
    and nth: "\<forall>i < length demo_episode. observations ! i = concat (pre_obs (demo_episode ! i)) \<and>
                             acts ! i = [taken (demo_episode ! i)]"
    and total: "episode_reward = sum_list (map step_reward demo_episode)"
    by blast
  have "observations = [[0, 0], [1, 0]]"
    using len nth by (intro nth_equalityI) (auto simp: demo_episode_def less_Suc_eq)
  moreover have "acts = [[0], [1]]"
    using len nth by (intro nth_equalityI) (auto simp: demo_episode_def less_Suc_eq)
  moreover have "episode_reward = 1" using total by (simp add: demo_episode_def)
  ultimately show ?thesis using run c by simp
qed

subsection \<open>Training loop\<close>

lemma run_rollouts_effects:
  "run_rollouts sys k w = Some (w', res) \<Longrightarrow>
     fit_calls w' = fit_calls w \<and> world_agent w' = world_agent w \<and> plotted w' = plotted w \<and>
     (\<forall>ts. res = Inr ts \<longrightarrow> length ts = k \<and> rollouts_started w' = rollouts_started w + k)"
proof (induction k arbitrary: w w' res)
  case 0
  then show ?case by auto
next
  case (Suc k)
  from Suc.prems obtain r env' g' where
    ro: "rollout sys (world_agent w) (world_env w) (world_rng w) False = Some (r, env', g')"
    by (auto split: option.splits)
  define w1 where "w1 = w\<lparr>world_env := env', world_rng := g', rollouts_started := rollouts_started w + 1\<rparr>"
  show ?case
  proof (cases r)
    case (Inl e)
    with Suc.prems ro show ?thesis by (auto simp: w1_def)
  next
    case (Inr t)
    obtain observations acts episode_reward where t: "t = (observations, acts, episode_reward)"
      by (cases t) auto
    from Suc.prems ro Inr t obtain w2 r2 where
      rec: "run_rollouts sys k w1 = Some (w2, r2)"
      by (auto simp: w1_def Let_def split: option.splits)
    have ih: "fit_calls w2 = fit_calls w1 \<and> world_agent w2 = world_agent w1 \<and> plotted w2 = plotted w1 \<and>
     (\<forall>ts. r2 = Inr ts \<longrightarrow> length ts = k \<and> rollouts_started w2 = rollouts_started w1 + k)"
      using Suc.IH [OF rec] .
    from Suc.prems ro Inr t rec have "w' = w2 \<and>
       (case r2 of Inl e \<Rightarrow> res = Inl e
        | Inr ts \<Rightarrow> res = Inr (\<lparr>obs = observations, actions = acts, reward = episode_reward\<rparr> # ts))"
      by (auto simp: w1_def Let_def split: sum.splits)
    with ih show ?thesis
      by (auto simp: w1_def split: sum.splits)
  qed
qed

lemma gen_action_distribution_length:
  "gen_action_distribution i 5 = Inr d \<Longrightarrow> length d = 5"
  by (auto simp: gen_action_distribution_def np_zeros_def np_setitem_def split: if_splits)

lemma elite_action_distributions_of_length:
  "elite_action_distributions_of as = Inr ds \<Longrightarrow> d \<in> set ds \<Longrightarrow> length d = 5"
proof (induction as arbitrary: ds)
  case Nil
  then show ?case by simp
next
  case (Cons a as)
  then show ?case
    by (auto split: sum.splits dest: gen_action_distribution_length)
qed

lemma learn_logits_units:
  "learn sys a ob lb = Inr a' \<Longrightarrow> logits_units (brain a') = logits_units (brain a)"
  by (auto simp: learn_def split: sum.splits)

lemma fit_on_elites_effects:
  assumes "fit_on_elites sys q ts w = (w', res)"
  shows "rollouts_started w' = rollouts_started w \<and>
         logits_units (brain (world_agent w')) = logits_units (brain (world_agent w)) \<and>
         ((\<forall>(obs_batch, labels)\<in>set (fit_calls w). \<forall>l\<in>set labels. length l = 5) \<longrightarrow>
          (\<forall>(obs_batch, labels)\<in>set (fit_calls w'). \<forall>l\<in>set labels. length l = 5))"
proof -
  have calls: "fit_calls w' = fit_calls w \<or>
      (\<exists>ob lb. fit_calls w' = fit_calls w @ [(ob, lb)] \<and> (\<forall>l\<in>set lb. length l = 5))"
    using assms
    by (auto simp: fit_on_elites_def Let_def split: if_splits sum.splits prod.splits
        intro: elite_action_distributions_of_length)
  have rest: "rollouts_started w' = rollouts_started w \<and>
         logits_units (brain (world_agent w')) = logits_units (brain (world_agent w))"
    using assms
    by (auto simp: fit_on_elites_def Let_def split: if_splits sum.splits prod.splits
        dest: learn_logits_units)
  from calls rest show ?thesis by fastforce
qed

lemma fit_on_elites_empty: "fit_on_elites sys q [] w = (w, Inl ValueError)"
  by (simp add: fit_on_elites_def)

lemma fit_on_elites_bad_percentile:
  "ts \<noteq> [] \<Longrightarrow> q < 0 \<or> 100 < q \<Longrightarrow> fit_on_elites sys q ts w = (w, Inl ValueError)"
  by (auto simp: fit_on_elites_def gather_elite_xp_def np_percentile_def Let_def)

lemma train_epochs_effects:
  "train_epochs sys n q k w mr et = Some (w', res) \<Longrightarrow>
     logits_units (brain (world_agent w')) = logits_units (brain (world_agent w)) \<and>
     ((\<forall>(obs_batch, labels)\<in>set (fit_calls w). \<forall>l\<in>set labels. length l = 5) \<longrightarrow>
      (\<forall>(obs_batch, labels)\<in>set (fit_calls w'). \<forall>l\<in>set labels. length l = 5))"
proof (induction k arbitrary: w mr et)
  case 0
  then show ?case by auto
next
  case (Suc k)
  from Suc.prems obtain w1 r1 where
    rr: "run_rollouts sys (nat n) w = Some (w1, r1)"
    by (auto split: option.splits)
  note e1 = run_rollouts_effects [OF rr]
  show ?case
  proof (cases r1)
    case (Inl e)
    with Suc.prems rr e1 show ?thesis by auto
  next
    case (Inr ts)
    obtain w2 r2 where f: "fit_on_elites sys q ts w1 = (w2, r2)"
      by (cases "fit_on_elites sys q ts w1") auto
    note e2 = fit_on_elites_effects [OF f]
    show ?thesis
    proof (cases r2)
      case (Inl e)
      with Suc.prems rr \<open>r1 = Inr ts\<close> f have "w' = w2" by auto
      with e1 e2 show ?thesis by auto
    next
      case r2: (Inr p)
      obtain m t where p: "p = (m, t)" by (cases p) auto
      from Suc.prems rr \<open>r1 = Inr ts\<close> f r2 p
      have "train_epochs sys n q k w2 (mr @ [m]) (et @ [t]) = Some (w', res)" by auto
      from Suc.IH [OF this] e1 e2 show ?thesis by auto
    qed
  qed
qed

lemma initial_world_fields:
  "rollouts_started (initial_world sys g0 env_id) = 0"
  "fit_calls (initial_world sys g0 env_id) = []"
  "logits_units (brain (world_agent (initial_world sys g0 env_id))) =
     action_space_n sys (gym_make sys env_id)"
  by (simp_all add: initial_world_def Let_def Agent_init_def Brain_init_def)

lemma train_world:
  assumes "train sys g0 env_id n q e = Some (w, res)"
  shows "\<exists>w' res'. train_epochs sys n q (nat e) (initial_world sys g0 env_id) [] [] = Some (w', res')
           \<and> fit_calls w = fit_calls w' \<and> world_agent w = world_agent w'
           \<and> rollouts_started w = rollouts_started w'"
  using assms by (auto simp: train_def split: option.splits sum.splits prod.splits)

lemma demo_first_epoch_rollouts:
  "run_rollouts demo_system 2 (initial_world demo_system 0 ''Gridworld-v0'') =
     Some (\<lparr>world_env = 2,
            world_agent = \<lparr>brain = \<lparr>dense1_input_shape = [1, 2], logits_units = 3, weights = 0\<rparr>\<rparr>,
            world_rng = 4, rollouts_started = 2, fit_calls = [], plotted = []\<rparr>,
           Inr [\<lparr>obs = [[0, 0], [1, 0]], actions = [[0], [1]], reward = 1\<rparr>,
                \<lparr>obs = [[0, 0], [1, 0]], actions = [[2], [0]], reward = 2\<rparr>])"
  by code_simp

lemma demo_train_one_epoch:
  "train demo_system 0 ''Gridworld-v0'' 2 70 1 =
     Some (\<lparr>world_env = 2,
            world_agent = \<lparr>brain = \<lparr>dense1_input_shape = [1, 2], logits_units = 3, weights = 1\<rparr>\<rparr>,
            world_rng = 4, rollouts_started = 2,
            fit_calls = [([[0, 0], [1, 0]], [[0, 0, 1, 0, 0], [1, 0, 0, 0, 0]])],
            plotted = [[3 / 2], [17 / 10]]\<rparr>,
           Inr PyNone)"
  by code_simp

text \<open>
  C7, as stated, fails in its last part: \<open>train\<close> has no return statement, so a call
  with \<open>num_epochs = 0\<close> evaluates to \<open>None\<close> and not to an empty history.
\<close>

theorem train_zero_epochs_returns_none:
  "map_option snd (train demo_system 0 ''Gridworld-v0'' 70 70 0) = Some (Inr PyNone) \<and>
   map_option snd (train demo_system 0 ''Gridworld-v0'' 70 70 0) \<noteq> Some (Inr (EpochHistory []))"
  by (simp add: train_def)

text \<open>
  C7, amended. With \<open>num_epochs = 0\<close> the call returns \<open>None\<close>; no rollout has been
  started, \<open>fit\<close> has not been called, and the two histories handed to the plot are
  empty.
\<close>

theorem train_zero_epochs:
  "\<exists>w. train sys g0 env_id num_trajectory_rollouts elitism_criterion 0 = Some (w, Inr PyNone) \<and>
       rollouts_started w = 0 \<and> fit_calls w = [] \<and> plotted w = [[], []]"
  by (simp add: train_def initial_world_fields)

text \<open>
  C8, as stated, fails: with the percentile 150, two rollouts per epoch and one epoch,
  the ValueError of the percentile arrives after both rollouts have run; and with no
  epoch to run the same percentile raises nothing.
\<close>

theorem train_percentile_error_after_rollouts:
  "map_option (\<lambda>(w, r). (rollouts_started w, r))
     (train demo_system 0 ''Gridworld-v0'' 2 150 1) = Some (2, Inl ValueError) \<and>
   map_option snd (train demo_system 0 ''Gridworld-v0'' 2 150 0) = Some (Inr PyNone)"
  by code_simp

text \<open>
  C8, amended. \<open>train\<close> checks none of its arguments before the loop. With
  \<open>num_epochs \<le> 0\<close> it returns normally, whatever the other arguments are. With
  \<open>num_epochs > 0\<close> and \<open>num_trajectory_rollouts \<le> 0\<close> the first epoch raises
  ValueError on the empty batch, before any rollout and any fit. With both positive
  and a percentile outside \<open>[0, 100]\<close>, once the rollouts of the first epoch have
  returned their trajectories, the percentile raises ValueError: all the rollouts of
  that epoch have run by then, and \<open>fit\<close> has not been called. The agent is built
  with the number of actions of the environment, so these two cannot differ.
\<close>

theorem train_no_validation_before_rollouts:
  "(num_epochs \<le> 0 \<longrightarrow>
      (\<exists>w. train sys g0 env_id num_trajectory_rollouts elitism_criterion num_epochs
              = Some (w, Inr PyNone) \<and> rollouts_started w = 0)) \<and>
   (0 < num_epochs \<and> num_trajectory_rollouts \<le> 0 \<longrightarrow>
      (\<exists>w. train sys g0 env_id num_trajectory_rollouts elitism_criterion num_epochs
              = Some (w, Inl ValueError) \<and> rollouts_started w = 0 \<and> fit_calls w = [])) \<and>
   (0 < num_epochs \<and> 0 < num_trajectory_rollouts \<and>
    (elitism_criterion < 0 \<or> 100 < elitism_criterion) \<and>
    run_rollouts sys (nat num_trajectory_rollouts) (initial_world sys g0 env_id)
      = Some (w1, Inr trajectories) \<longrightarrow>
      train sys g0 env_id num_trajectory_rollouts elitism_criterion num_epochs
        = Some (w1, Inl ValueError) \<and>
      rollouts_started w1 = nat num_trajectory_rollouts \<and> fit_calls w1 = []) \<and>
   logits_units (brain (world_agent (initial_world sys g0 env_id)))
     = action_space_n sys (gym_make sys env_id)"
proof -
  have none: "\<exists>w. train sys g0 env_id num_trajectory_rollouts elitism_criterion num_epochs
              = Some (w, Inr PyNone) \<and> rollouts_started w = 0"
    if "num_epochs \<le> 0"
  proof -
    from that have "nat num_epochs = 0" by simp
    then show ?thesis by (simp add: train_def initial_world_fields)
  qed
  have empty: "\<exists>w. train sys g0 env_id num_trajectory_rollouts elitism_criterion num_epochs
              = Some (w, Inl ValueError) \<and> rollouts_started w = 0 \<and> fit_calls w = []"
    if a: "0 < num_epochs \<and> num_trajectory_rollouts \<le> 0"
  proof -
    from a obtain k where k: "nat num_epochs = Suc k" by (cases "nat num_epochs") auto
    from a have n: "nat num_trajectory_rollouts = 0" by simp
    show ?thesis
      by (simp add: train_def k n fit_on_elites_empty initial_world_fields)
  qed
  have late: "train sys g0 env_id num_trajectory_rollouts elitism_criterion num_epochs
        = Some (w1, Inl ValueError) \<and>
      rollouts_started w1 = nat num_trajectory_rollouts \<and> fit_calls w1 = []"
    if a: "0 < num_epochs \<and> 0 < num_trajectory_rollouts \<and>
      (elitism_criterion < 0 \<or> 100 < elitism_criterion) \<and>
      run_rollouts sys (nat num_trajectory_rollouts) (initial_world sys g0 env_id)
        = Some (w1, Inr trajectories)"
  proof -
    from a obtain k where k: "nat num_epochs = Suc k" by (cases "nat num_epochs") auto
    from a have rr: "run_rollouts sys (nat num_trajectory_rollouts) (initial_world sys g0 env_id)
        = Some (w1, Inr trajectories)" by simp
    from run_rollouts_effects [OF rr]
    have len: "length trajectories = nat num_trajectory_rollouts"
      and rs: "rollouts_started w1 = nat num_trajectory_rollouts"
      and fc: "fit_calls w1 = []"
      by (simp_all add: initial_world_fields)
    from len a have ne: "trajectories \<noteq> []" by auto
    from a have bad: "elitism_criterion < 0 \<or> 100 < elitism_criterion" by simp
    show ?thesis
      using rs fc
      by (simp add: train_def k rr fit_on_elites_bad_percentile [OF ne bad])
  qed
  have built: "logits_units (brain (world_agent (initial_world sys g0 env_id)))
     = action_space_n sys (gym_make sys env_id)"
    by (simp add: initial_world_fields)
  from none empty late built show ?thesis by blast
qed

theorem train_no_validation_before_rollouts_witness:
  "(\<exists>w. train demo_system 0 ''Gridworld-v0'' 2 150 0 = Some (w, Inr PyNone) \<and>
        rollouts_started w = 0) \<and>
   (\<exists>w. train demo_system 0 ''Gridworld-v0'' 0 70 1 = Some (w, Inl ValueError) \<and>
        rollouts_started w = 0 \<and> fit_calls w = []) \<and>
   (\<exists>w. train demo_system 0 ''Gridworld-v0'' 2 150 1 = Some (w, Inl ValueError) \<and>
        rollouts_started w = 2 \<and> fit_calls w = [])"
proof -
  have a: "\<exists>w. train demo_system 0 ''Gridworld-v0'' 2 150 0 = Some (w, Inr PyNone) \<and>
        rollouts_started w = 0"
    using train_no_validation_before_rollouts
      [where sys = demo_system and ?g0.0 = 0 and env_id = "''Gridworld-v0''"
         and num_trajectory_rollouts = 2 and elitism_criterion = 150 and num_epochs = 0]
    by simp
  have b: "\<exists>w. train demo_system 0 ''Gridworld-v0'' 0 70 1 = Some (w, Inl ValueError) \<and>
        rollouts_started w = 0 \<and> fit_calls w = []"
    using train_no_validation_before_rollouts
      [where sys = demo_system and ?g0.0 = 0 and env_id = "''Gridworld-v0''"
         and num_trajectory_rollouts = 0 and elitism_criterion = 70 and num_epochs = 1]
    by simp
  have c: "\<exists>w. train demo_system 0 ''Gridworld-v0'' 2 150 1 = Some (w, Inl ValueError) \<and>
        rollouts_started w = 2 \<and> fit_calls w = []"
    using train_no_validation_before_rollouts
      [where sys = demo_system and ?g0.0 = 0 and env_id = "''Gridworld-v0''"
         and num_trajectory_rollouts = 2 and elitism_criterion = 150 and num_epochs = 1
         and ?w1.0 = "\<lparr>world_env = 2,
            world_agent = \<lparr>brain = \<lparr>dense1_input_shape = [1, 2], logits_units = 3, weights = 0\<rparr>\<rparr>,
            world_rng = 4, rollouts_started = 2, fit_calls = [], plotted = []\<rparr>"
         and trajectories = "[\<lparr>obs = [[0, 0], [1, 0]], actions = [[0], [1]], reward = 1\<rparr>,
                \<lparr>obs = [[0, 0], [1, 0]], actions = [[2], [0]], reward = 2\<rparr>]"]
      demo_first_epoch_rollouts
    by simp
  from a b c show ?thesis by blast
qed

text \<open>
  C10. In every run of \<open>train\<close> that returns or raises, each label vector given to
  \<open>fit\<close> has length 5, the default \<open>action_dim\<close> of \<open>gen_action_distribution\<close>,
  while the last layer of the network has as many units as the environment has
  actions. When that number is not 5, no label has the length of the network's output.
\<close>

theorem train_labels_have_length_5:
  assumes "train sys g0 env_id num_trajectory_rollouts elitism_criterion num_epochs = Some (w, res)"
  shows "(\<forall>(obs_batch, labels)\<in>set (fit_calls w). \<forall>l\<in>set labels. length l = 5) \<and>
         logits_units (brain (world_agent w)) = action_space_n sys (gym_make sys env_id) \<and>
         (action_space_n sys (gym_make sys env_id) \<noteq> 5 \<longrightarrow>
            (\<forall>(obs_batch, labels)\<in>set (fit_calls w). \<forall>l\<in>set labels.
               int (length l) \<noteq> logits_units (brain (world_agent w))))"
proof -
  obtain w' res' where
    te: "train_epochs sys num_trajectory_rollouts elitism_criterion (nat num_epochs)
           (initial_world sys g0 env_id) [] [] = Some (w', res')"
    and eq: "fit_calls w = fit_calls w'" "world_agent w = world_agent w'"
    using train_world [OF assms] by blast
  from train_epochs_effects [OF te]
  have a: "\<forall>(obs_batch, labels)\<in>set (fit_calls w). \<forall>l\<in>set labels. length l = 5"
    and b: "logits_units (brain (world_agent w)) = action_space_n sys (gym_make sys env_id)"
    by (simp_all add: eq initial_world_fields)
  from a b show ?thesis by fastforce
qed

theorem train_labels_have_length_5_witness:
  "\<exists>w. train demo_system 0 ''Gridworld-v0'' 2 70 1 = Some (w, Inr PyNone) \<and>
       fit_calls w = [([[0, 0], [1, 0]], [[0, 0, 1, 0, 0], [1, 0, 0, 0, 0]])] \<and>
       logits_units (brain (world_agent w)) = 3 \<and>
       action_space_n demo_system (gym_make demo_system ''Gridworld-v0'') = 3"
  using train_labels_have_length_5 [OF demo_train_one_epoch]
  by (simp add: demo_train_one_epoch)

end
